theory Spec2Isabelle
  imports Main "HOL-Library.Word" "HOL-Library.Sublist"
begin

section \<open>Physical restore: statuses, errors and the storage\<close>

text \<open>
  The development embeds the physical restore of the restore package
  (\<open>PhysRestore\<close>: \<open>Snapshot\<close>, \<open>toState\<close>, \<open>waitFiles\<close>, \<open>checkHB\<close>,
  \<open>prepareBackup\<close>, \<open>setBcpFiles\<close>, \<open>copyFiles\<close>, \<open>MarkFailed\<close>, \<open>close\<close>) and the
  agent's \<open>restorePhysical\<close>. The type \<open>pbm.Status\<close> is a Go string type; the
  constants the package declares are the constructors below and \<open>status_str\<close> is the
  conversion \<open>string(status)\<close>.
\<close>

datatype Status =
    StatusInit | StatusReady | StatusDown | StatusStarting | StatusRunning
  | StatusDumpDone | StatusPartlyDone | StatusDone | StatusCancelled | StatusError

fun status_str :: "Status \<Rightarrow> string" where
  "status_str StatusInit = ''init''"
| "status_str StatusReady = ''ready''"
| "status_str StatusDown = ''down''"
| "status_str StatusStarting = ''starting''"
| "status_str StatusRunning = ''running''"
| "status_str StatusDumpDone = ''dumpDone''"
| "status_str StatusPartlyDone = ''partlyDone''"
| "status_str StatusDone = ''done''"
| "status_str StatusCancelled = ''canceled''"
| "status_str StatusError = ''error''"

text \<open>
  Go errors as values. \<open>ErrNotExist\<close> and \<open>ErrEmpty\<close> are the sentinels of the storage
  package, \<open>ErrNotFound\<close> the one of package pbm, \<open>ErrNoDataForShard\<close> the one of the
  restore package; \<open>ExtErr\<close> is any other error of a collaborator (storage backend,
  database driver, operating system), carrying its text. \<open>NodeErr\<close> is the struct
  \<open>nodeErr\<close>, \<open>Stuck t\<close> the error \<open>errors.Errorf("stuck, last beat ts: %d", t)\<close>,
  \<open>ErrMsg\<close> any other \<open>errors.New\<close>/\<open>errors.Errorf\<close> of the package, \<open>Wrap e m\<close> is
  \<open>errors.Wrap(e, m)\<close> for a non-nil \<open>e\<close>, and \<open>ParseErr\<close> the error of
  \<open>strconv.ParseInt\<close>. \<open>PanicNil\<close> stands for the run-time panic of a call through a
  nil interface or pointer.
\<close>

datatype err =
    ErrNotExist
  | ErrEmpty
  | ErrNotFound
  | ErrNoDataForShard
  | ExtErr string
  | NodeErr string string
  | Stuck "64 word"
  | ErrMsg string
  | Wrap err string
  | ParseErr
  | PanicNil

text \<open>\<open>errors.Is(e, target)\<close> for a sentinel target: identity, or identity of a wrapped cause.\<close>

fun errors_Is :: "err \<Rightarrow> err \<Rightarrow> bool" where
  "errors_Is (Wrap e m) target = (Wrap e m = target \<or> errors_Is e target)"
| "errors_Is e target = (e = target)"

text \<open>\<open>errors.As(e, &nerr)\<close> for the type \<open>nodeErr\<close>: the first \<open>nodeErr\<close> in the chain.\<close>

fun errors_As_nodeErr :: "err \<Rightarrow> (string \<times> string) option" where
  "errors_As_nodeErr (NodeErr n m) = Some (n, m)"
| "errors_As_nodeErr (Wrap e m) = errors_As_nodeErr e"
| "errors_As_nodeErr e = None"

text \<open>\<open>errors.Wrap(err, msg)\<close> of package pkg/errors: nil stays nil.\<close>

fun errors_Wrap :: "err option \<Rightarrow> string \<Rightarrow> err option" where
  "errors_Wrap None m = None"
| "errors_Wrap (Some e) m = Some (Wrap e m)"

subsection \<open>Strings: decimal numbers, white space, base names\<close>

definition digit_char :: "nat \<Rightarrow> char" where
  "digit_char d = ''0123456789'' ! d"

function dec :: "nat \<Rightarrow> string" where
  "dec n = (if n < 10 then [digit_char n] else dec (n div 10) @ [digit_char (n mod 10)])"
  by pat_completeness auto
termination
  by (relation "measure id") auto

declare dec.simps [simp del]

text \<open>The verb \<open>%d\<close> of package fmt on an \<open>int64\<close>.\<close>

definition fmt_d :: "64 word \<Rightarrow> string" where
  "fmt_d x = (if sint x < 0 then CHR ''-'' # dec (nat (- sint x)) else dec (nat (sint x)))"

definition isDigit :: "char \<Rightarrow> bool" where
  "isDigit c \<longleftrightarrow> 48 \<le> (of_char c :: nat) \<and> (of_char c :: nat) \<le> 57"

fun parse_digits :: "nat \<Rightarrow> string \<Rightarrow> nat option" where
  "parse_digits n [] = Some n"
| "parse_digits n (c # cs) =
     (if isDigit c then parse_digits (n * 10 + (of_char c - 48)) cs else None)"

text \<open>
  \<open>strconv.ParseInt(s, 10, 0)\<close> on a 64-bit platform: an optional sign, then decimal
  digits only (base 10 admits no underscore); a value outside \<open>int64\<close> is a range error.
  \<open>None\<close> is the non-nil error.
\<close>

definition ParseInt :: "string \<Rightarrow> 64 word option" where
  "ParseInt s =
     (case s of
        [] \<Rightarrow> None
      | c # cs \<Rightarrow>
          (let neg = (c = CHR ''-'');
               s' = (if c = CHR ''+'' \<or> c = CHR ''-'' then cs else s)
           in if s' = [] then None
              else (case parse_digits 0 s' of
                      None \<Rightarrow> None
                    | Some un \<Rightarrow>
                        if \<not> neg \<and> un \<ge> 2 ^ 63 then None
                        else if neg \<and> un > 2 ^ 63 then None
                        else Some (if neg then - (word_of_nat un) else word_of_nat un))))"

text \<open>
  The white space of \<open>unicode.IsSpace\<close> in its UTF-8 encoding: the ASCII characters tab,
  line feed, vertical tab, form feed, carriage return and space, U+0085, U+00A0, U+1680,
  U+2000 to U+200A, U+2028, U+2029, U+202F, U+205F and U+3000.
\<close>

definition space_seqs :: "string list" where
  "space_seqs =
     [[CHR 0x09], [CHR 0x0A], [CHR 0x0B], [CHR 0x0C], [CHR 0x0D], [CHR 0x20],
      [CHR 0xC2, CHR 0x85], [CHR 0xC2, CHR 0xA0], [CHR 0xE1, CHR 0x9A, CHR 0x80],
      [CHR 0xE2, CHR 0x80, CHR 0x80], [CHR 0xE2, CHR 0x80, CHR 0x81],
      [CHR 0xE2, CHR 0x80, CHR 0x82], [CHR 0xE2, CHR 0x80, CHR 0x83],
      [CHR 0xE2, CHR 0x80, CHR 0x84], [CHR 0xE2, CHR 0x80, CHR 0x85],
      [CHR 0xE2, CHR 0x80, CHR 0x86], [CHR 0xE2, CHR 0x80, CHR 0x87],
      [CHR 0xE2, CHR 0x80, CHR 0x88], [CHR 0xE2, CHR 0x80, CHR 0x89],
      [CHR 0xE2, CHR 0x80, CHR 0x8A], [CHR 0xE2, CHR 0x80, CHR 0xA8],
      [CHR 0xE2, CHR 0x80, CHR 0xA9], [CHR 0xE2, CHR 0x80, CHR 0xAF],
      [CHR 0xE2, CHR 0x81, CHR 0x9F], [CHR 0xE3, CHR 0x80, CHR 0x80]]"

definition space_prefix_len :: "string \<Rightarrow> nat" where
  "space_prefix_len s = (case filter (\<lambda>p. prefix p s) space_seqs of [] \<Rightarrow> 0 | p # _ \<Rightarrow> length p)"

function trim_left :: "string \<Rightarrow> string" where
  "trim_left s = (if s \<noteq> [] \<and> 0 < space_prefix_len s
                  then trim_left (drop (space_prefix_len s) s) else s)"
  by pat_completeness auto
termination
  by (relation "measure length") auto

declare trim_left.simps [simp del]

definition space_suffix_len :: "string \<Rightarrow> nat" where
  "space_suffix_len s = (case filter (\<lambda>p. suffix p s) space_seqs of [] \<Rightarrow> 0 | p # _ \<Rightarrow> length p)"

function trim_right :: "string \<Rightarrow> string" where
  "trim_right s = (if s \<noteq> [] \<and> 0 < space_suffix_len s
                   then trim_right (take (length s - space_suffix_len s) s) else s)"
  by pat_completeness auto
termination
  by (relation "measure length") auto

declare trim_right.simps [simp del]

definition TrimSpace :: "string \<Rightarrow> string" where
  "TrimSpace s = trim_right (trim_left s)"

text \<open>\<open>filepath.Base\<close> on a system whose separator is the slash.\<close>

definition Base :: "string \<Rightarrow> string" where
  "Base p =
     (if p = [] then ''.''
      else (let p1 = rev (dropWhile (\<lambda>c. c = CHR ''/'') (rev p))
            in if p1 = [] then ''/''
               else rev (takeWhile (\<lambda>c. c \<noteq> CHR ''/'') (rev p1))))"

subsection \<open>The storage, the clock and the heap of maps\<close>

text \<open>
  Modelled from the spec: the storage package is not among the sources; the engine
  consumes \<open>save(name, reader, size) \<rightarrow> err\<close>, \<open>source_reader(name) \<rightarrow> reader\<close> and
  \<open>file_stat(name) \<rightarrow> {size} | not-exist | empty\<close>. An object of the store is absent,
  empty, present with its bytes, or broken: its stat, its open or its read fails with
  an error of the backend.
\<close>

datatype fstate =
    NotExist | Empty | Exists string | StatErr string | OpenErr string | ReadErr string

text \<open>
  One tick of a waiter's ticker: the time the waiter reads after it and what the other
  nodes (and the heartbeat task) have written to the store meanwhile.
\<close>

type_synonym tick = "64 word \<times> (string \<times> fstate) list"

text \<open>
  The events of a run, in order: every \<open>Save\<close> on the storage (name, body, and whether
  the storage accepted it), every call of \<open>waitFiles\<close> (status, the awaited objects,
  the flag \<open>cluster\<close>), \<open>MarkFailed\<close>, \<open>close\<close>, \<open>removeAll\<close> on the data directory, the
  steps of the local restore, and the file operations of \<open>copyFiles\<close>.
\<close>

datatype fileop =
    MkdirAll string
  | OpenSource string
  | Decompress string string
  | OpenFile string nat
  | Seek string "64 word"
  | CopyBuffer string string
  | Truncate string "64 word"

datatype step = Flush | CopyFiles | PrepareData | RecoverStandalone | ResetRS

datatype event =
    EvSave string string bool
  | EvWaitFiles Status "string list" bool
  | EvMarkFailed err bool
  | EvClose bool bool
  | EvRemoveAll string
  | EvStepOk step
  | EvFileOp fileop

text \<open>
  The state outside the \<open>PhysRestore\<close> object. A Go map is a reference: \<open>heap\<close> maps
  the address of a \<open>map[string]struct{}\<close> to its keys, in the order in which a \<open>range\<close>
  visits them (Go leaves the order open; every theorem below holds for every order);
  \<open>next_ref\<close> is the next free address. \<open>sched\<close> is what the node will observe at the
  coming ticks of its tickers; a waiter that has used it up waits forever. \<open>datadir\<close>
  lists the entries of the database path.
\<close>

record world =
  store :: "string \<Rightarrow> fstate"
  clock :: "64 word"
  sched :: "tick list"
  heap :: "nat \<Rightarrow> string list"
  next_ref :: nat
  datadir :: "string list"
  trace :: "event list"

text \<open>
  The replica-set configuration and the node information the restore keeps.
  \<open>IsLeader\<close>, \<open>IsClusterLeader\<close> and \<open>IsConfigSrv\<close> are methods of \<open>pbm.NodeInfo\<close>,
  which is not among the sources: their results are fields here.
\<close>

record NodeInfo =
  IsPrimary :: bool
  IsLeader :: bool
  IsClusterLeader :: bool
  IsConfigSrv :: bool
  SetName :: string
  Me :: string

record File =
  Name :: string
  Off :: "64 word"
  Len :: "64 word"
  Size :: "64 word"
  StgSize :: "64 word"
  Fmode :: nat

record BackupReplset =
  rsName :: string
  Journal :: "File list"
  Files :: "File list"
  hasMongodOpts :: bool

datatype BackupType = PhysicalBackup | IncrementalBackup | LogicalBackup

record BackupMeta =
  bcpType :: BackupType
  bcpName :: string
  SrcBackup :: string
  Replsets :: "BackupReplset list"
  Compression :: string
  MongoVersion :: string
  bcpStatus :: Status
  bcpErr :: string
  PBMVersion :: string

text \<open>The struct \<open>files\<close>: one frame of the plan.\<close>

record files =
  BcpName :: string
  Cmpr :: string
  Data :: "File list"
  fdbpath :: string

record PhysRestore =
  nodeInfo :: NodeInfo
  rsConfID :: string
  rsMembers :: "(string \<times> bool) list"
  dbpath :: string
  startTS :: "64 word"
  rname :: string
  stg :: bool
  tmpConf :: bool
  stopHB :: bool
  bcp :: "BackupMeta option"
  rfiles :: "files list"
  rsMap :: "(string \<times> string) list"
  syncPathNode :: string
  syncPathNodeStat :: string
  syncPathRS :: string
  syncPathCluster :: string
  syncPathPeers :: "nat option"
  syncPathShards :: "nat option"
  syncPathDataShards :: "nat option"

text \<open>
  What the collaborators answer, fixed for a run. \<open>save_fault\<close> and \<open>rm_fault\<close> give the
  error of a \<open>Save\<close> or of \<open>os.RemoveAll\<close> on a name, if it fails; \<open>fmt_err\<close> is the text
  \<open>fmt\<close> prints for an error.
\<close>

datatype 'a answer = Answer 'a | Never

record extern =
  save_fault :: "string \<Rightarrow> string option"
  rm_fault :: "string \<Rightarrow> string option"
  fmt_err :: "err \<Rightarrow> string"

definition FileStat :: "world \<Rightarrow> string \<Rightarrow> err option" where
  "FileStat w f =
     (case store w f of
        NotExist \<Rightarrow> Some ErrNotExist
      | Empty \<Rightarrow> Some ErrEmpty
      | StatErr m \<Rightarrow> Some (ExtErr m)
      | _ \<Rightarrow> None)"

text \<open>\<open>SourceReader\<close> followed by \<open>ReadAll\<close>: the open can fail, then the read.\<close>

definition SourceReader :: "world \<Rightarrow> string \<Rightarrow> err + fstate" where
  "SourceReader w f =
     (case store w f of
        NotExist \<Rightarrow> Inl ErrNotExist
      | OpenErr m \<Rightarrow> Inl (ExtErr m)
      | StatErr m \<Rightarrow> Inl (ExtErr m)
      | s \<Rightarrow> Inr s)"

definition ReadAll :: "fstate \<Rightarrow> err + string" where
  "ReadAll rd =
     (case rd of
        Exists b \<Rightarrow> Inr b
      | ReadErr m \<Rightarrow> Inl (ExtErr m)
      | _ \<Rightarrow> Inr [])"

definition log_ev :: "event \<Rightarrow> world \<Rightarrow> world" where
  "log_ev e w = w\<lparr>trace := trace w @ [e]\<rparr>"

definition Save :: "extern \<Rightarrow> string \<Rightarrow> string \<Rightarrow> world \<Rightarrow> err option \<times> world" where
  "Save x name body w =
     (case save_fault x name of
        Some m \<Rightarrow> (Some (ExtErr m), log_ev (EvSave name body False) w)
      | None \<Rightarrow>
          (None, log_ev (EvSave name body True)
                   (w\<lparr>store := (store w)(name := (if body = [] then Empty else Exists body))\<rparr>)))"

definition okStatus :: "world \<Rightarrow> string" where
  "okStatus w = fmt_d (clock w)"

definition errStatus :: "extern \<Rightarrow> world \<Rightarrow> err \<Rightarrow> string" where
  "errStatus x w e = fmt_d (clock w) @ '':'' @ fmt_err x e"

subsection \<open>Heartbeat check\<close>

definition hbFrameSec :: "64 word" where
  "hbFrameSec = 60 * 2"

definition syncHbSuffix :: string where
  "syncHbSuffix = ''hb''"

definition checkHB :: "PhysRestore \<Rightarrow> string \<Rightarrow> world \<Rightarrow> err option" where
  "checkHB r file w =
     (let ts = clock w in
      case FileStat w file of
        Some e \<Rightarrow>
          if errors_Is e ErrNotExist then
            (if sint (startTS r + hbFrameSec * 2) < sint ts then Some (Stuck (startTS r))
             else None)
          else Some (Wrap e ''get file stat'')
      | None \<Rightarrow>
          (case SourceReader w file of
             Inl e \<Rightarrow> Some (Wrap e ''get hb file'')
           | Inr f \<Rightarrow>
               (case ReadAll f of
                  Inl e \<Rightarrow> Some (Wrap e ''read content'')
                | Inr b \<Rightarrow>
                    (case ParseInt (TrimSpace b) of
                       None \<Rightarrow> Some (Wrap ParseErr ''decode'')
                     | Some t \<Rightarrow>
                         if sint (t + hbFrameSec * 2) < sint ts then Some (Stuck t)
                         else None))))"

definition checkFile :: "world \<Rightarrow> string \<Rightarrow> bool \<times> err option" where
  "checkFile w f =
     (case FileStat w f of
        None \<Rightarrow> (True, None)
      | Some e \<Rightarrow> if e = ErrNotExist \<or> e = ErrEmpty then (False, None) else (False, Some e))"

subsection \<open>Waiting for status objects\<close>

text \<open>
  One pass of the body of the inner loop of \<open>waitFiles\<close> over an awaited object \<open>f\<close>
  ends in one of four ways: the function returns an error; the error is recorded
  (\<open>curErr = ...; delete(objs, f); continue\<close>); the object is still pending
  (\<open>continue\<close>); or the status is reached (\<open>haveDone = true; delete(objs, f)\<close>, after
  \<open>retStatus = pbm.StatusPartlyDone\<close> when the flag is set).
\<close>

datatype poll = Return Status err | RecordErr err | Pending | Reached bool

definition waitFiles_status :: "PhysRestore \<Rightarrow> Status \<Rightarrow> string \<Rightarrow> world \<Rightarrow> poll" where
  "waitFiles_status r status f w =
     (case checkHB r (f @ ''.'' @ syncHbSuffix) w of
        Some e \<Rightarrow>
          (let curErr = Wrap e (''check heartbeat in '' @ f @ ''.'' @ syncHbSuffix)
           in if status \<noteq> StatusDone then Return StatusError curErr else RecordErr curErr)
      | None \<Rightarrow>
          (case checkFile w (f @ ''.'' @ status_str status) of
             (ok, Some e) \<Rightarrow>
               Return StatusError (Wrap e (''check file '' @ f @ ''.'' @ status_str status))
           | (ok, None) \<Rightarrow>
               if \<not> ok then
                 (if status \<noteq> StatusDone then Pending
                  else (case checkFile w (f @ ''.'' @ status_str StatusPartlyDone) of
                          (ok', Some e) \<Rightarrow>
                            Return StatusError
                              (Wrap e (''check file '' @ f @ ''.'' @ status_str StatusPartlyDone))
                        | (ok', None) \<Rightarrow> if \<not> ok' then Pending else Reached True))
               else Reached False))"

definition waitFiles_obj :: "PhysRestore \<Rightarrow> Status \<Rightarrow> string \<Rightarrow> world \<Rightarrow> poll" where
  "waitFiles_obj r status f w =
     (let errFile = f @ ''.'' @ status_str StatusError in
      case FileStat w errFile of
        Some e \<Rightarrow>
          if e \<noteq> ErrNotExist then Return StatusError (Wrap e (''get file '' @ errFile))
          else waitFiles_status r status f w
      | None \<Rightarrow>
          (case SourceReader w errFile of
             Inl e \<Rightarrow> Return StatusError (Wrap e (''open error file '' @ errFile))
           | Inr rd \<Rightarrow>
               (case ReadAll rd of
                  Inl e \<Rightarrow> Return StatusError (Wrap e (''read error file '' @ errFile))
                | Inr b \<Rightarrow>
                    if status \<noteq> StatusDone then Return StatusError (NodeErr (Base f) b)
                    else RecordErr (NodeErr (Base f) b))))"

record wstate =
  retStatus :: Status
  curErr :: "err option"
  haveDone :: bool

text \<open>\<open>delete(objs, f)\<close> on the map at address \<open>m\<close>.\<close>

definition map_delete :: "nat \<Rightarrow> string \<Rightarrow> world \<Rightarrow> world" where
  "map_delete m f w = w\<lparr>heap := (heap w)(m := filter (\<lambda>k. k \<noteq> f) (heap w m))\<rparr>"

text \<open>The inner loop \<open>for f := range objs\<close>, over the keys the range visits.\<close>

fun waitFiles_range ::
  "PhysRestore \<Rightarrow> Status \<Rightarrow> nat \<Rightarrow> string list \<Rightarrow> wstate \<Rightarrow> world
     \<Rightarrow> (Status \<times> err) option \<times> wstate \<times> world" where
  "waitFiles_range r status m [] st w = (None, st, w)"
| "waitFiles_range r status m (f # fs) st w =
     (case waitFiles_obj r status f w of
        Return s e \<Rightarrow> (Some (s, e), st, w)
      | RecordErr e \<Rightarrow>
          waitFiles_range r status m fs (st\<lparr>curErr := Some e\<rparr>) (map_delete m f w)
      | Pending \<Rightarrow> waitFiles_range r status m fs st w
      | Reached partly \<Rightarrow>
          waitFiles_range r status m fs
            (st\<lparr>retStatus := (if partly then StatusPartlyDone else retStatus st),
                haveDone := True\<rparr>)
            (map_delete m f w))"

definition tick_world :: "tick \<Rightarrow> world \<Rightarrow> world" where
  "tick_world t w =
     w\<lparr>clock := fst t, store := fold (\<lambda>(n, s) st. st(n := s)) (snd t) (store w)\<rparr>"

text \<open>
  The outer loop \<open>for range tk.C\<close>: each round first waits for the ticker. \<open>None\<close> is a
  wait that never ends.
\<close>

fun waitFiles_ticks ::
  "PhysRestore \<Rightarrow> Status \<Rightarrow> nat \<Rightarrow> bool \<Rightarrow> tick list \<Rightarrow> wstate \<Rightarrow> world
     \<Rightarrow> ((Status \<times> err option) \<times> world) option" where
  "waitFiles_ticks r status m cluster [] st w = None"
| "waitFiles_ticks r status m cluster (t # ts) st w =
     (let w1 = tick_world t (w\<lparr>sched := ts\<rparr>) in
      case waitFiles_range r status m (heap w1 m) st w1 of
        (Some (s, e), st', w2) \<Rightarrow> Some ((s, Some e), w2)
      | (None, st', w2) \<Rightarrow>
          if length (heap w2 m) = 0 then
            (case curErr st' of
               None \<Rightarrow> Some ((retStatus st', None), w2)
             | Some e \<Rightarrow>
                 if haveDone st' \<and> \<not> cluster then Some ((StatusPartlyDone, None), w2)
                 else Some ((StatusError, Some e), w2))
          else waitFiles_ticks r status m cluster ts st' w2)"

text \<open>The keys of a map value; a nil map has none.\<close>

definition keys :: "world \<Rightarrow> nat option \<Rightarrow> string list" where
  "keys w objs = (case objs of None \<Rightarrow> [] | Some m \<Rightarrow> heap w m)"

definition waitFiles ::
  "PhysRestore \<Rightarrow> Status \<Rightarrow> nat option \<Rightarrow> bool \<Rightarrow> world
     \<Rightarrow> ((Status \<times> err option) \<times> world) option" where
  "waitFiles r status objs cluster w =
     (let w' = log_ev (EvWaitFiles status (keys w objs) cluster) w in
      if length (keys w objs) = 0 then
        Some ((StatusError, Some (ErrMsg ''empty objects maps'')), w')
      else waitFiles_ticks r status (the objs) cluster (sched w')
             \<lparr>retStatus = status, curErr = None, haveDone = False\<rparr> w')"

text \<open>\<open>copyMap\<close> allocates a map and copies the keys; a map literal allocates too.\<close>

definition new_map :: "string list \<Rightarrow> world \<Rightarrow> nat \<times> world" where
  "new_map ks w = (next_ref w, w\<lparr>heap := (heap w)(next_ref w := ks), next_ref := Suc (next_ref w)\<rparr>)"

definition copyMap :: "nat option \<Rightarrow> world \<Rightarrow> nat \<times> world" where
  "copyMap m w = new_map (keys w m) w"

subsection \<open>Moving the cluster to a state\<close>

definition status_obj :: "string \<Rightarrow> Status \<Rightarrow> string" where
  "status_obj base status = base @ ''.'' @ status_str status"

text \<open>
  The block \<open>if r.nodeInfo.IsPrimary || status == pbm.StatusDone { ... }\<close> of
  \<open>toState\<close>; the result is the error with which the function returns from inside the
  block, if it does.
\<close>

definition toState_rs ::
  "extern \<Rightarrow> PhysRestore \<Rightarrow> Status \<Rightarrow> world \<Rightarrow> (err option \<times> world) option" where
  "toState_rs x r status w =
     (if IsPrimary (nodeInfo r) \<or> status = StatusDone then
        (case copyMap (syncPathPeers r) w of
           (m, w1) \<Rightarrow>
             (case waitFiles r status (Some m) False w1 of
                None \<Rightarrow> None
              | Some ((cstat, Some e), w2) \<Rightarrow> Some (Some (Wrap e ''wait for nodes in rs''), w2)
              | Some ((cstat, None), w2) \<Rightarrow>
                  (case Save x (status_obj (syncPathRS r) cstat) (okStatus w2) w2 of
                     (Some e, w3) \<Rightarrow> Some (Some (Wrap e ''write replset state''), w3)
                   | (None, w3) \<Rightarrow> Some (None, w3))))
      else Some (None, w))"

text \<open>The block \<open>if r.nodeInfo.IsClusterLeader() || status == pbm.StatusDone { ... }\<close>.\<close>

definition toState_cluster ::
  "extern \<Rightarrow> PhysRestore \<Rightarrow> Status \<Rightarrow> world \<Rightarrow> (err option \<times> world) option" where
  "toState_cluster x r status w =
     (if IsClusterLeader (nodeInfo r) \<or> status = StatusDone then
        (case copyMap (syncPathShards r) w of
           (m, w1) \<Rightarrow>
             (case waitFiles r status (Some m) True w1 of
                None \<Rightarrow> None
              | Some ((cstat, Some e), w2) \<Rightarrow> Some (Some (Wrap e ''wait for shards''), w2)
              | Some ((cstat, None), w2) \<Rightarrow>
                  (case Save x (status_obj (syncPathCluster r) cstat) (okStatus w2) w2 of
                     (Some e, w3) \<Rightarrow> Some (Some (Wrap e ''write replset state''), w3)
                   | (None, w3) \<Rightarrow> Some (None, w3))))
      else Some (None, w))"

text \<open>The last wait of \<open>toState\<close>, on the cluster object alone.\<close>

definition toState_wait ::
  "PhysRestore \<Rightarrow> Status \<Rightarrow> world \<Rightarrow> ((Status \<times> err option) \<times> world) option" where
  "toState_wait r status w =
     (case new_map [syncPathCluster r] w of
        (m, w1) \<Rightarrow>
          (case waitFiles r status (Some m) True w1 of
             None \<Rightarrow> None
           | Some ((cstat, Some e), w2) \<Rightarrow>
               Some ((StatusError, Some (Wrap e ''wait for shards'')), w2)
           | Some ((cstat, None), w2) \<Rightarrow> Some ((cstat, None), w2)))"

text \<open>The body of \<open>toState\<close>, before its deferred function runs.\<close>

definition toState_body ::
  "extern \<Rightarrow> PhysRestore \<Rightarrow> Status \<Rightarrow> world
     \<Rightarrow> ((Status \<times> err option) \<times> world) option" where
  "toState_body x r status w =
     (case Save x (status_obj (syncPathNode r) status) (okStatus w) w of
        (Some e, w1) \<Rightarrow> Some ((StatusError, Some (Wrap e ''write node state'')), w1)
      | (None, w1) \<Rightarrow>
          (case toState_rs x r status w1 of
             None \<Rightarrow> None
           | Some (Some e, w2) \<Rightarrow> Some ((StatusError, Some e), w2)
           | Some (None, w2) \<Rightarrow>
               (case toState_cluster x r status w2 of
                  None \<Rightarrow> None
                | Some (Some e, w3) \<Rightarrow> Some ((StatusError, Some e), w3)
                | Some (None, w3) \<Rightarrow> toState_wait r status w3)))"

text \<open>The deferred function of \<open>toState\<close>: on an error, the leaders publish it.\<close>

definition toState_defer ::
  "extern \<Rightarrow> PhysRestore \<Rightarrow> Status \<Rightarrow> err option \<Rightarrow> world \<Rightarrow> world" where
  "toState_defer x r status err w =
     (case err of
        None \<Rightarrow> w
      | Some e \<Rightarrow>
          (let w1 = (if IsPrimary (nodeInfo r) \<and> status \<noteq> StatusDone
                     then snd (Save x (status_obj (syncPathRS r) StatusError) (errStatus x w e) w)
                     else w)
           in if IsClusterLeader (nodeInfo r) \<and> status \<noteq> StatusDone
              then snd (Save x (status_obj (syncPathCluster r) StatusError) (errStatus x w1 e) w1)
              else w1))"

definition toState ::
  "extern \<Rightarrow> PhysRestore \<Rightarrow> Status \<Rightarrow> world
     \<Rightarrow> ((Status \<times> err option) \<times> world) option" where
  "toState x r status w =
     (case toState_body x r status w of
        None \<Rightarrow> None
      | Some ((rStatus, err), w1) \<Rightarrow> Some ((rStatus, err), toState_defer x r status err w1))"

subsection \<open>Allocated maps\<close>

definition allocated :: "world \<Rightarrow> nat option \<Rightarrow> bool" where
  "allocated w objs = (case objs of None \<Rightarrow> True | Some m \<Rightarrow> m < next_ref w)"

section \<open>Example runs\<close>

text \<open>Concrete stores, clocks and nodes on which the properties below are exercised.\<close>

definition w0 :: world where
  "w0 = \<lparr>store = (\<lambda>f. NotExist), clock = 0, sched = [], heap = (\<lambda>a. []), next_ref = 0,
          datadir = [], trace = []\<rparr>"

definition ni0 :: NodeInfo where
  "ni0 = \<lparr>IsPrimary = False, IsLeader = False, IsClusterLeader = False, IsConfigSrv = False,
           SetName = ''rs0'', Me = ''n1:27017''\<rparr>"

definition r0 :: PhysRestore where
  "r0 = \<lparr>nodeInfo = ni0, rsConfID = ''rs0'',
          rsMembers = [(''n1:27017'', False), (''n2:27017'', False)],
          dbpath = ''/data/db'', startTS = 1000, rname = ''r1'', stg = True, tmpConf = False,
          stopHB = False, bcp = None, rfiles = [], rsMap = [],
          syncPathNode = ''.pbm.restore/r1/rs.rs0/node.n1:27017'',
          syncPathNodeStat = ''.pbm.restore/r1/rs.rs0/stat.n1:27017'',
          syncPathRS = ''.pbm.restore/r1/rs.rs0/rs'',
          syncPathCluster = ''.pbm.restore/r1/cluster'',
          syncPathPeers = None, syncPathShards = None, syncPathDataShards = None\<rparr>"

definition w_hb :: world where
  "w_hb = w0\<lparr>store := (store w0)(''p.hb'' := Exists ''1700000000''), clock := 1700000300\<rparr>"

definition x0 :: extern where
  "x0 = \<lparr>save_fault = (\<lambda>n. None), rm_fault = (\<lambda>n. None), fmt_err = (\<lambda>e. ''error'')\<rparr>"

text \<open>
  A node of a two-node replica set of a one-shard cluster that moves to \<open>done\<close>: at the
  first tick it sees the \<open>done\<close> object of its peer.
\<close>

definition r_done :: PhysRestore where
  "r_done = r0\<lparr>syncPathNode := ''n1'', syncPathRS := ''rs'', syncPathCluster := ''cl'',
               syncPathPeers := Some 0, syncPathShards := Some 1\<rparr>"

definition w_done :: world where
  "w_done = w0\<lparr>heap := (\<lambda>a. [])(0 := [''n1'', ''n2''], 1 := [''rs'']), next_ref := 2,
               clock := 1004,
               sched := [(1005, [(''n2.done'', Exists ''1004'')]), (1010, []), (1015, [])]\<rparr>"

section \<open>Properties\<close>

subsection \<open>Evaluation of the string functions\<close>

text \<open>
  The functions defined by a guarded recursion are unfolded only where the guard is
  decided, so that evaluation by rewriting stops.
\<close>

lemma dec_lt: "n < 10 \<Longrightarrow> dec n = [digit_char n]"
  by (simp add: dec.simps)

lemma dec_ge: "10 \<le> n \<Longrightarrow> dec n = dec (n div 10) @ [digit_char (n mod 10)]"
  by (subst dec.simps) simp

lemma trim_left_stop: "s = [] \<or> space_prefix_len s = 0 \<Longrightarrow> trim_left s = s"
  by (subst trim_left.simps) auto

lemma trim_left_step:
  "s \<noteq> [] \<Longrightarrow> 0 < space_prefix_len s \<Longrightarrow>
     trim_left s = trim_left (drop (space_prefix_len s) s)"
  by (subst trim_left.simps) simp

lemma trim_right_stop: "s = [] \<or> space_suffix_len s = 0 \<Longrightarrow> trim_right s = s"
  by (subst trim_right.simps) auto

lemma trim_right_step:
  "s \<noteq> [] \<Longrightarrow> 0 < space_suffix_len s \<Longrightarrow>
     trim_right s = trim_right (take (length s - space_suffix_len s) s)"
  by (subst trim_right.simps) simp

lemmas eval_str = TrimSpace_def trim_left_stop trim_left_step trim_right_stop trim_right_step
  space_prefix_len_def space_suffix_len_def space_seqs_def suffix_def ParseInt_def isDigit_def
  fmt_d_def dec_lt dec_ge digit_char_def

lemmas eval_wait = waitFiles_def waitFiles_obj_def waitFiles_status_def checkHB_def
  checkFile_def FileStat_def SourceReader_def ReadAll_def tick_world_def map_delete_def
  keys_def new_map_def copyMap_def log_ev_def Save_def okStatus_def errStatus_def
  status_obj_def syncHbSuffix_def hbFrameSec_def Base_def

lemmas eval_toState = toState_def toState_body_def toState_rs_def toState_cluster_def
  toState_wait_def toState_defer_def

lemma parse_example: "ParseInt (TrimSpace ''1700000000'') = Some 1700000000"
  by (simp add: eval_str)

subsection \<open>Heartbeat staleness\<close>

lemma sint_plus_frame:
  "sint (t :: 64 word) \<le> 2 ^ 63 - 1 - 240 \<Longrightarrow> sint (t + 240) = sint t + 240"
proof -
  assume a: "sint t \<le> 2 ^ 63 - 1 - 240"
  have b: "- (2 ^ 63) \<le> sint t" using sint_ge [of t] by simp
  have "sint (t + 240) = signed_take_bit 63 (sint t + 240)"
    by (simp add: sint_word_add)
  also have "\<dots> = sint t + 240"
    using a b by (simp add: signed_take_bit_int_eq_self_iff)
  finally show ?thesis .
qed

text \<open>
  C9. \<open>checkHB\<close> answers the error "stuck, last beat ts: t" exactly when either the
  heartbeat file exists, its content decodes to the timestamp \<open>t\<close> and
  \<open>t + 240 < now\<close>, or the heartbeat file does not exist, \<open>t\<close> is the start of the
  restore and \<open>startTS + 240 < now\<close>; 240 seconds is twice \<open>hbFrameSec\<close>, which is 120.
  The sum and the comparison are those of Go's \<open>int64\<close>; by \<open>sint_plus_frame\<close> the
  sum is the sum of integers for every timestamp up to \<open>2^63 - 241\<close>.
\<close>

theorem checkHB_stuck_iff:
  "(checkHB r file w = Some (Stuck t) \<longleftrightarrow>
      ((\<exists>b. store w file = Exists b \<and> ParseInt (TrimSpace b) = Some t
            \<and> sint (t + 240) < sint (clock w))
       \<or> (store w file = NotExist \<and> t = startTS r
            \<and> sint (startTS r + 240) < sint (clock w))))
   \<and> (240 :: 64 word) = hbFrameSec * 2 \<and> hbFrameSec = 120"
  by (auto simp: checkHB_def FileStat_def SourceReader_def ReadAll_def hbFrameSec_def Let_def
       split: fstate.splits option.splits sum.splits if_splits)

theorem checkHB_stuck_iff_witness:
  "checkHB r0 ''p.hb'' w_hb = Some (Stuck 1700000000)"
proof -
  have a: "store w_hb ''p.hb'' = Exists ''1700000000''"
    by (simp add: w_hb_def w0_def)
  have b: "sint ((1700000000 :: 64 word) + 240) < sint (clock w_hb)"
    by (simp add: w_hb_def w0_def)
  have "\<exists>b. store w_hb ''p.hb'' = Exists b \<and> ParseInt (TrimSpace b) = Some 1700000000
            \<and> sint ((1700000000 :: 64 word) + 240) < sint (clock w_hb)"
    using a b parse_example by (intro exI conjI)
  then show ?thesis
    using checkHB_stuck_iff [of r0 "''p.hb''" w_hb 1700000000] by (simp only: simp_thms)
qed

subsection \<open>What the waiting functions leave unchanged\<close>

lemma Save_frame:
  "Save x n b w = (res, w') \<Longrightarrow>
     trace w' = trace w @ [EvSave n b (res = None)] \<and> heap w' = heap w
     \<and> next_ref w' = next_ref w \<and> sched w' = sched w \<and> clock w' = clock w
     \<and> datadir w' = datadir w"
  by (auto simp: Save_def log_ev_def split: option.splits)

lemma map_delete_frame:
  "trace (map_delete m f w) = trace w \<and> next_ref (map_delete m f w) = next_ref w
   \<and> store (map_delete m f w) = store w \<and> clock (map_delete m f w) = clock w
   \<and> sched (map_delete m f w) = sched w \<and> datadir (map_delete m f w) = datadir w
   \<and> (\<forall>a. a \<noteq> m \<longrightarrow> heap (map_delete m f w) a = heap w a)"
  by (simp add: map_delete_def)

lemma waitFiles_range_frame:
  "waitFiles_range r status m fs st w = (res, st', w') \<Longrightarrow>
     trace w' = trace w \<and> next_ref w' = next_ref w \<and> store w' = store w
     \<and> clock w' = clock w \<and> sched w' = sched w \<and> datadir w' = datadir w
     \<and> (\<forall>a. a \<noteq> m \<longrightarrow> heap w' a = heap w a)"
proof (induction fs arbitrary: st w)
  case Nil
  then show ?case by simp
next
  case (Cons f fs)
  show ?case
  proof (cases "waitFiles_obj r status f w")
    case (Return s e)
    with Cons.prems show ?thesis by simp
  next
    case (RecordErr e)
    with Cons.prems Cons.IH [of "st\<lparr>curErr := Some e\<rparr>" "map_delete m f w"]
    show ?thesis by (simp add: map_delete_frame)
  next
    case Pending
    with Cons.prems Cons.IH [of st w] show ?thesis by simp
  next
    case (Reached partly)
    with Cons.prems
      Cons.IH [of "st\<lparr>retStatus := (if partly then StatusPartlyDone else retStatus st),
                      haveDone := True\<rparr>" "map_delete m f w"]
    show ?thesis by (simp add: map_delete_frame)
  qed
qed

lemma tick_world_frame:
  "trace (tick_world t w) = trace w \<and> next_ref (tick_world t w) = next_ref w
   \<and> heap (tick_world t w) = heap w \<and> datadir (tick_world t w) = datadir w
   \<and> sched (tick_world t w) = sched w"
  by (simp add: tick_world_def)

lemma waitFiles_ticks_frame:
  "waitFiles_ticks r status m cluster ts st w = Some (res, w') \<Longrightarrow>
     trace w' = trace w \<and> next_ref w' = next_ref w \<and> datadir w' = datadir w
     \<and> (\<forall>a. a \<noteq> m \<longrightarrow> heap w' a = heap w a)"
proof (induction ts arbitrary: st w)
  case Nil
  then show ?case by simp
next
  case (Cons t ts)
  define w1 where "w1 = tick_world t (w\<lparr>sched := ts\<rparr>)"
  obtain ret st' w2 where rg: "waitFiles_range r status m (heap w1 m) st w1 = (ret, st', w2)"
    by (cases "waitFiles_range r status m (heap w1 m) st w1") auto
  have f1: "trace w1 = trace w \<and> next_ref w1 = next_ref w \<and> heap w1 = heap w
            \<and> datadir w1 = datadir w"
    by (simp add: w1_def tick_world_frame)
  have f2: "trace w2 = trace w1 \<and> next_ref w2 = next_ref w1 \<and> datadir w2 = datadir w1
            \<and> (\<forall>a. a \<noteq> m \<longrightarrow> heap w2 a = heap w1 a)"
    using waitFiles_range_frame [OF rg] by simp
  show ?case
  proof (cases ret)
    case (Some se)
    with Cons.prems rg f1 f2 show ?thesis
      by (auto simp: w1_def [symmetric] Let_def split: prod.splits)
  next
    case None
    show ?thesis
    proof (cases "heap w2 m = []")
      case True
      with None Cons.prems rg f1 f2 show ?thesis
        by (auto simp: w1_def [symmetric] Let_def split: prod.splits option.splits if_splits)
    next
      case False
      with None Cons.prems rg
      have "waitFiles_ticks r status m cluster ts st' w2 = Some (res, w')"
        by (simp add: w1_def [symmetric] Let_def)
      from Cons.IH [OF this] f1 f2 show ?thesis by simp
    qed
  qed
qed

lemma waitFiles_frame:
  "waitFiles r status objs cluster w = Some (res, w') \<Longrightarrow>
     trace w' = trace w @ [EvWaitFiles status (keys w objs) cluster]
     \<and> next_ref w' = next_ref w \<and> datadir w' = datadir w
     \<and> (\<forall>a. Some a \<noteq> objs \<longrightarrow> heap w' a = heap w a)"
proof -
  assume a: "waitFiles r status objs cluster w = Some (res, w')"
  show ?thesis
  proof (cases "keys w objs = []")
    case True
    with a show ?thesis by (auto simp: waitFiles_def log_ev_def Let_def)
  next
    case False
    then obtain m where m: "objs = Some m" by (cases objs) (auto simp: keys_def)
    from a False m
    have "waitFiles_ticks r status m cluster (sched w)
            \<lparr>retStatus = status, curErr = None, haveDone = False\<rparr>
            (log_ev (EvWaitFiles status (keys w objs) cluster) w) = Some (res, w')"
      by (simp add: waitFiles_def Let_def log_ev_def)
    from waitFiles_ticks_frame [OF this] m show ?thesis by (simp add: log_ev_def)
  qed
qed

lemma waitFiles_obj_not_done:
  "status \<noteq> StatusDone \<Longrightarrow> waitFiles_obj r status f w \<noteq> RecordErr e
     \<and> waitFiles_obj r status f w \<noteq> Reached True"
  by (auto simp: waitFiles_obj_def waitFiles_status_def Let_def
      split: option.splits sum.splits prod.splits if_splits)

lemma waitFiles_range_flags:
  "waitFiles_range r status m fs st w = (res, st', w') \<Longrightarrow>
     (retStatus st' = retStatus st \<or> (status = StatusDone \<and> retStatus st' = StatusPartlyDone))
     \<and> (curErr st' = curErr st \<or> status = StatusDone)"
proof (induction fs arbitrary: st w)
  case Nil
  then show ?case by simp
next
  case (Cons f fs)
  show ?case
  proof (cases "waitFiles_obj r status f w")
    case (Return s e)
    with Cons.prems show ?thesis by simp
  next
    case (RecordErr e)
    with waitFiles_obj_not_done [of status r f w e] have "status = StatusDone" by auto
    with RecordErr Cons.prems Cons.IH [of "st\<lparr>curErr := Some e\<rparr>" "map_delete m f w"]
    show ?thesis by auto
  next
    case Pending
    with Cons.prems Cons.IH [of st w] show ?thesis by simp
  next
    case (Reached partly)
    have "partly \<Longrightarrow> status = StatusDone"
      using Reached waitFiles_obj_not_done [of status r f w] by auto
    with Reached Cons.prems
      Cons.IH [of "st\<lparr>retStatus := (if partly then StatusPartlyDone else retStatus st),
                      haveDone := True\<rparr>" "map_delete m f w"]
    show ?thesis by (cases partly) auto
  qed
qed

lemma waitFiles_ticks_ok:
  "waitFiles_ticks r status m cluster ts st w = Some ((s, None), w') \<Longrightarrow>
   curErr st = None \<or> status = StatusDone \<Longrightarrow>
     heap w' m = []
     \<and> (s = retStatus st \<or> (status = StatusDone \<and> s = StatusPartlyDone))"
proof (induction ts arbitrary: st w)
  case Nil
  then show ?case by simp
next
  case (Cons t ts)
  define w1 where "w1 = tick_world t (w\<lparr>sched := ts\<rparr>)"
  obtain ret st' w2 where rg: "waitFiles_range r status m (heap w1 m) st w1 = (ret, st', w2)"
    by (cases "waitFiles_range r status m (heap w1 m) st w1") auto
  note fl = waitFiles_range_flags [OF rg]
  show ?case
  proof (cases ret)
    case (Some se)
    with Cons.prems rg show ?thesis
      by (auto simp: w1_def [symmetric] Let_def split: prod.splits)
  next
    case None
    show ?thesis
    proof (cases "heap w2 m = []")
      case True
      with None Cons.prems rg fl show ?thesis
        by (auto simp: w1_def [symmetric] Let_def split: prod.splits option.splits if_splits)
    next
      case False
      with None Cons.prems rg
      have "waitFiles_ticks r status m cluster ts st' w2 = Some ((s, None), w')"
        by (simp add: w1_def [symmetric] Let_def)
      moreover have "curErr st' = None \<or> status = StatusDone"
        using fl Cons.prems(2) by auto
      ultimately show ?thesis using Cons.IH [of st' w2] fl by auto
    qed
  qed
qed

lemma waitFiles_ok:
  "waitFiles r status objs cluster w = Some ((s, None), w') \<Longrightarrow>
     keys w' objs = [] \<and> keys w objs \<noteq> []
     \<and> (s = status \<or> (status = StatusDone \<and> s = StatusPartlyDone))"
proof -
  assume a: "waitFiles r status objs cluster w = Some ((s, None), w')"
  then have ne: "keys w objs \<noteq> []"
    by (auto simp: waitFiles_def Let_def split: if_splits)
  then obtain m where m: "objs = Some m" by (cases objs) (auto simp: keys_def)
  from a ne m
  have "waitFiles_ticks r status m cluster (sched w)
          \<lparr>retStatus = status, curErr = None, haveDone = False\<rparr>
          (log_ev (EvWaitFiles status (keys w objs) cluster) w) = Some ((s, None), w')"
    by (simp add: waitFiles_def Let_def log_ev_def)
  from waitFiles_ticks_ok [OF this] ne m show ?thesis by (simp add: keys_def)
qed

lemma new_map_frame:
  "new_map ks w = (m, w') \<Longrightarrow>
     m = next_ref w \<and> next_ref w' = Suc (next_ref w) \<and> heap w' m = ks
     \<and> (\<forall>a. a \<noteq> m \<longrightarrow> heap w' a = heap w a) \<and> trace w' = trace w
     \<and> datadir w' = datadir w"
  by (auto simp: new_map_def)

lemma copyMap_frame:
  "copyMap objs w = (m, w') \<Longrightarrow>
     m = next_ref w \<and> next_ref w' = Suc (next_ref w) \<and> heap w' m = keys w objs
     \<and> (\<forall>a. a \<noteq> m \<longrightarrow> heap w' a = heap w a) \<and> trace w' = trace w
     \<and> datadir w' = datadir w"
  unfolding copyMap_def by (rule new_map_frame)

end
